theory Spec2Isabelle
  imports Main "HOL-Library.AList"
begin

section \<open>Common ground: text, exceptions, effects\<close>

text \<open>
  Python text is modelled as \<^typ>\<open>string\<close>, each character standing for the code point
  of the same number (so the texts of the model are those whose code points lie below 256;
  the device protocol and the keyword table are plain ASCII). Byte strings are lists of
  characters as well. An exception is modelled by the text that \<^verbatim>\<open>str(e)\<close> gives for it.
  Console output (\<^verbatim>\<open>print\<close>, \<^verbatim>\<open>sys.stdout.write\<close>) is not modelled.
\<close>

type_synonym bytes = string

datatype exn = Exn string

fun str :: "exn \<Rightarrow> string" where
  "str (Exn msg) = msg"

text \<open>\<^verbatim>\<open>str(i)\<close> for a non-negative integer: its decimal digits.\<close>

definition digit_char :: "nat \<Rightarrow> char" where
  "digit_char d = char_of (48 + d)"

function str_nat :: "nat \<Rightarrow> string" where
  "str_nat n = (if n < 10 then [digit_char n] else str_nat (n div 10) @ [digit_char (n mod 10)])"
  by pat_completeness auto
termination
  by (relation "measure (\<lambda>n. n)") auto

declare str_nat.simps [simp del]

section \<open>scan_celestron.py: the subnet sweep\<close>

text \<open>
  What \<^verbatim>\<open>s.connect_ex((ip, port))\<close> does on a socket with the given timeout: it hands
  back an error number (0 when the connection was established, the code of a timeout, a
  refusal or an unreachable host otherwise), or a call of the \<^verbatim>\<open>try\<close> block raises.
  The network is a function from address, port and timeout (in milliseconds) to that outcome.
\<close>

datatype connect_outcome = Returns int | Raises exn

type_synonym network = "string \<Rightarrow> nat \<Rightarrow> nat \<Rightarrow> connect_outcome"

text \<open>The body of the \<^verbatim>\<open>try\<close> block of \<^verbatim>\<open>scan_port\<close>: \<^verbatim>\<open>return result == 0\<close>.\<close>

definition scan_port_try :: "network \<Rightarrow> string \<Rightarrow> nat \<Rightarrow> nat \<Rightarrow> exn + bool" where
  "scan_port_try net ip port timeout =
     (case net ip port timeout of
        Raises e \<Rightarrow> Inl e
      | Returns result \<Rightarrow> Inr (result = 0))"

text \<open>\<^verbatim>\<open>scan_port\<close>: the bare \<^verbatim>\<open>except:\<close> turns every exception into \<^verbatim>\<open>False\<close>.\<close>

definition scan_port :: "network \<Rightarrow> string \<Rightarrow> nat \<Rightarrow> nat \<Rightarrow> exn + bool" where
  "scan_port net ip port timeout =
     (case scan_port_try net ip port timeout of
        Inl e \<Rightarrow> Inr False
      | Inr b \<Rightarrow> Inr b)"

text \<open>\<^verbatim>\<open>ip = f"192.168.68.{i}"\<close>\<close>

definition ip_of :: "nat \<Rightarrow> string" where
  "ip_of i = ''192.168.68.'' @ str_nat i"

text \<open>
  The module-level loop \<^verbatim>\<open>for i in range(1, 255)\<close>, with \<^verbatim>\<open>found\<close> as the accumulator;
  \<^verbatim>\<open>scan_port(ip, 2000)\<close> takes the default timeout of half a second.
\<close>

function sweep_loop :: "network \<Rightarrow> nat \<Rightarrow> string list \<Rightarrow> exn + string list" where
  "sweep_loop net i found =
     (if i < 255 then
        (case scan_port net (ip_of i) 2000 500 of
           Inl e \<Rightarrow> Inl e
         | Inr b \<Rightarrow>
             if b then sweep_loop net (Suc i) (found @ [ip_of i])
             else sweep_loop net (Suc i) found)
      else Inr found)"
  by pat_completeness auto
termination
  by (relation "measure (\<lambda>(net, i, found). 255 - i)") auto

declare sweep_loop.simps [simp del]

definition sweep :: "network \<Rightarrow> exn + string list" where
  "sweep net = sweep_loop net 1 []"

text \<open>An address accepts when the connect of the sweep's probe returns 0.\<close>

definition accepts :: "network \<Rightarrow> string \<Rightarrow> bool" where
  "accepts net ip = (net ip 2000 500 = Returns 0)"

text \<open>Reading the host suffix back from an address of the swept subnet (specification only).\<close>

definition nat_of_str :: "string \<Rightarrow> nat" where
  "nat_of_str s = foldl (\<lambda>a c. 10 * a + (of_char c - 48)) 0 s"

definition suffix_of :: "string \<Rightarrow> nat" where
  "suffix_of ip = nat_of_str (drop 11 ip)"

text \<open>
  A network for examples: only \<^verbatim>\<open>192.168.68.5\<close> accepts, every other host refuses
  (error number 111).
\<close>

definition only_host_5 :: network where
  "only_host_5 ip p t = (if ip = ''192.168.68.5'' then Returns 0 else Returns 111)"

definition unplugged :: network where
  "unplugged ip p t = Raises (Exn ''Network is unreachable'')"

section \<open>diagnose_homebrew.py: finding the device among the serial ports\<close>

text \<open>
  A port descriptor as \<^verbatim>\<open>serial.tools.list_ports\<close> hands it out; \<^verbatim>\<open>manufacturer\<close> may be
  \<^verbatim>\<open>None\<close>.
\<close>

record port_info =
  device :: string
  description :: string
  hwid :: string
  manufacturer :: "string option"

text \<open>
  \<^verbatim>\<open>str.lower()\<close> on code points below 256: the letters A to Z and the capital letters of
  the Latin-1 block (the multiplication sign 215 is not one) move up by 32.
\<close>

definition lower_char :: "char \<Rightarrow> char" where
  "lower_char c =
     (let n = (of_char c :: nat)
      in if (65 \<le> n \<and> n \<le> 90) \<or> (192 \<le> n \<and> n \<le> 222 \<and> n \<noteq> 215)
         then char_of (n + 32) else c)"

definition lower :: "string \<Rightarrow> string" where
  "lower s = map lower_char s"

text \<open>\<^verbatim>\<open>sub in s\<close> on text: \<^verbatim>\<open>sub\<close> occurs in \<^verbatim>\<open>s\<close> as a contiguous run.\<close>

fun starts_with :: "string \<Rightarrow> string \<Rightarrow> bool" where
  "starts_with s [] = True"
| "starts_with [] (c # sub) = False"
| "starts_with (d # s) (c # sub) = (d = c \<and> starts_with s sub)"

fun str_in :: "string \<Rightarrow> string \<Rightarrow> bool" where
  "str_in sub [] = (sub = [])"
| "str_in sub (d # s) = (starts_with (d # s) sub \<or> str_in sub s)"

text \<open>\<^verbatim>\<open>list_com_ports\<close>: an empty enumeration is answered with \<^verbatim>\<open>None\<close>.\<close>

definition list_com_ports :: "port_info list \<Rightarrow> port_info list option" where
  "list_com_ports comports = (if comports = [] then None else Some comports)"

text \<open>The local table \<^verbatim>\<open>keywords\<close> of \<^verbatim>\<open>detect_homebrew_port\<close>.\<close>

definition homebrew_keywords :: "string list" where
  "homebrew_keywords = [''CH340'', ''CP210'', ''FTDI'', ''USB-SERIAL'', ''ESP32'', ''Arduino'']"

text \<open>
  The inner loop \<^verbatim>\<open>for keyword in keywords\<close> for one descriptor \<open>pt\<close>: the first keyword
  found in the description or in the hardware ID ends the whole function with the device
  path.
\<close>

fun keyword_loop :: "string list \<Rightarrow> port_info \<Rightarrow> string option" where
  "keyword_loop [] pt = None"
| "keyword_loop (keyword # kws) pt =
     (if str_in (lower keyword) (lower (description pt)) \<or>
         str_in (lower keyword) (lower (hwid pt))
      then Some (device pt)
      else keyword_loop kws pt)"

text \<open>The outer loop \<^verbatim>\<open>for port in ports\<close>; falling out of it returns \<^verbatim>\<open>None\<close>.\<close>

fun port_loop :: "string list \<Rightarrow> port_info list \<Rightarrow> string option" where
  "port_loop kws [] = None"
| "port_loop kws (pt # ports) =
     (case keyword_loop kws pt of
        Some dev \<Rightarrow> Some dev
      | None \<Rightarrow> port_loop kws ports)"

text \<open>
  \<^verbatim>\<open>detect_homebrew_port(ports)\<close>. Its argument is what \<^verbatim>\<open>list_com_ports\<close> returned, a list
  or \<^verbatim>\<open>None\<close>; iterating over \<^verbatim>\<open>None\<close> raises a TypeError.
\<close>

definition detect_homebrew_port :: "port_info list option \<Rightarrow> exn + string option" where
  "detect_homebrew_port ports =
     (case ports of
        None \<Rightarrow> Inl (Exn '''NoneType' object is not iterable'')
      | Some ps \<Rightarrow> Inr (port_loop homebrew_keywords ps))"

text \<open>
  The specification's reading of a match: some keyword of the table occurs, case ignored,
  in the description or in the hardware ID.
\<close>

definition port_matches :: "string list \<Rightarrow> port_info \<Rightarrow> bool" where
  "port_matches kws pt =
     (\<exists>k \<in> set kws. str_in (lower k) (lower (description pt)) \<or>
                    str_in (lower k) (lower (hwid pt)))"

text \<open>Two descriptors that differ at most in the case of letters.\<close>

definition same_but_case :: "port_info \<Rightarrow> port_info \<Rightarrow> bool" where
  "same_but_case p q =
     (device p = device q \<and> lower (description p) = lower (description q) \<and>
      lower (hwid p) = lower (hwid q))"

text \<open>Descriptors for examples.\<close>

definition com1 :: port_info where
  "com1 = \<lparr>device = ''COM1'', description = ''Communications Port'',
           hwid = ''ACPI PNP0501'', manufacturer = None\<rparr>"

definition com3 :: port_info where
  "com3 = \<lparr>device = ''COM3'', description = ''usb-serial ch340 (COM3)'',
           hwid = ''USB VID:PID=1A86:7523'', manufacturer = Some ''wch.cn''\<rparr>"

definition com3_upper :: port_info where
  "com3_upper = \<lparr>device = ''COM3'', description = ''USB-SERIAL CH340 (COM3)'',
           hwid = ''USB VID:PID=1A86:7523'', manufacturer = Some ''wch.cn''\<rparr>"

definition com7 :: port_info where
  "com7 = \<lparr>device = ''COM7'', description = ''Silicon Labs Bridge'',
           hwid = ''USB VID:PID=10C4:EA60 cp210x'', manufacturer = None\<rparr>"

section \<open>Effects: a state and exception monad\<close>

text \<open>
  A Python call runs in a state, may raise, and leaves a state behind. The state of a
  method is a pair of the object \<^verbatim>\<open>self\<close> and the world outside the process (the
  connection and the device behind it, the clock).
\<close>

type_synonym ('s, 'a) io = "'s \<Rightarrow> (exn + 'a) \<times> 's"

definition io_return :: "'a \<Rightarrow> ('s, 'a) io" where
  "io_return x = (\<lambda>s. (Inr x, s))"

definition io_raise :: "exn \<Rightarrow> ('s, 'a) io" where
  "io_raise e = (\<lambda>s. (Inl e, s))"

definition io_bind :: "('s, 'a) io \<Rightarrow> ('a \<Rightarrow> ('s, 'b) io) \<Rightarrow> ('s, 'b) io" where
  "io_bind m f = (\<lambda>s. case m s of (Inl e, s') \<Rightarrow> (Inl e, s') | (Inr x, s') \<Rightarrow> f x s')"

text \<open>\<^verbatim>\<open>try: m except Exception as e: h(e)\<close>; what \<open>m\<close> did to the state stays done.\<close>

definition io_try :: "('s, 'a) io \<Rightarrow> (exn \<Rightarrow> ('s, 'a) io) \<Rightarrow> ('s, 'a) io" where
  "io_try m h = (\<lambda>s. case m s of (Inl e, s') \<Rightarrow> h e s' | (Inr x, s') \<Rightarrow> (Inr x, s'))"

text \<open>The result of a pure library function that may raise.\<close>

definition io_of :: "exn + 'a \<Rightarrow> ('s, 'a) io" where
  "io_of r = (\<lambda>s. (r, s))"

definition io_get :: "('o \<times> 'w, 'o) io" where
  "io_get = (\<lambda>(self, w). (Inr self, (self, w)))"

definition io_modify :: "('o \<Rightarrow> 'o) \<Rightarrow> ('o \<times> 'w, unit) io" where
  "io_modify f = (\<lambda>(self, w). (Inr (), (f self, w)))"

text \<open>Library calls act on the world only.\<close>

definition in_world :: "('w, 'a) io \<Rightarrow> ('o \<times> 'w, 'a) io" where
  "in_world m = (\<lambda>(self, w). case m w of (r, w') \<Rightarrow> (r, (self, w')))"

definition world_do :: "('w \<Rightarrow> 'w) \<Rightarrow> ('o \<times> 'w, unit) io" where
  "world_do f = (\<lambda>(self, w). (Inr (), (self, f w)))"

definition world_get :: "('w \<Rightarrow> 'a \<times> 'w) \<Rightarrow> ('o \<times> 'w, 'a) io" where
  "world_get f = (\<lambda>(self, w). case f w of (x, w') \<Rightarrow> (Inr x, (self, w')))"

text \<open>
  \<^verbatim>\<open>str.strip()\<close>: the white space of Python among the code points below 256 is
  9 to 13, 28 to 32, 133 and 160.
\<close>

definition is_space :: "char \<Rightarrow> bool" where
  "is_space c =
     (let n = (of_char c :: nat)
      in (9 \<le> n \<and> n \<le> 13) \<or> (28 \<le> n \<and> n \<le> 32) \<or> n = 133 \<or> n = 160)"

definition strip :: "string \<Rightarrow> string" where
  "strip s = rev (dropWhile is_space (rev (dropWhile is_space s)))"

definition CRLF :: string where
  "CRLF = [CHR 0x0D, CHR 0x0A]"

section \<open>wifi_bt_gps_test.py: the command battery over a TCP socket\<close>

text \<open>
  The library under \<^verbatim>\<open>WiFiBTGPSTester\<close>, over a world \<open>'w\<close> and a type \<open>'t\<close> of points in
  time. Calls that the source guards with \<^verbatim>\<open>try\<close> may raise; \<open>sleep\<close>, \<open>datetime_now\<close>
  and \<open>sock_close\<close>, which it calls unguarded, are taken not to raise. Delays are in
  milliseconds.
  \<^item> \<open>socket_socket\<close>: \<^verbatim>\<open>socket.socket(AF_INET, SOCK_STREAM)\<close> and \<^verbatim>\<open>settimeout(5)\<close>;
  \<^item> \<open>sock_connect\<close>: \<^verbatim>\<open>tn.connect((host, port))\<close>;
  \<^item> \<open>sock_send\<close>, \<open>sock_recv\<close>, \<open>sock_close\<close>: \<^verbatim>\<open>tn.send(data)\<close>, \<^verbatim>\<open>tn.recv(n)\<close>, \<^verbatim>\<open>tn.close()\<close>;
  \<^item> \<open>encode\<close>, \<open>decode\<close>: \<^verbatim>\<open>str.encode()\<close> and \<^verbatim>\<open>bytes.decode()\<close>, the UTF-8 codec;
  \<^item> \<open>sleep\<close>: \<^verbatim>\<open>time.sleep\<close>;
  \<^item> \<open>datetime_now\<close>, \<open>isoformat\<close>: \<^verbatim>\<open>datetime.now()\<close>, \<^verbatim>\<open>t.isoformat()\<close>;
  \<^item> \<open>str_timedelta e b\<close>: \<^verbatim>\<open>str(e - b)\<close>.
\<close>

record ('w, 't) wifi_lib =
  socket_socket :: "('w, unit) io"
  sock_connect :: "string \<Rightarrow> int \<Rightarrow> ('w, unit) io"
  sock_send :: "bytes \<Rightarrow> ('w, nat) io"
  sock_recv :: "nat \<Rightarrow> ('w, bytes) io"
  sock_close :: "'w \<Rightarrow> 'w"
  encode :: "string \<Rightarrow> exn + bytes"
  decode :: "bytes \<Rightarrow> exn + string"
  sleep :: "nat \<Rightarrow> 'w \<Rightarrow> 'w"
  datetime_now :: "'w \<Rightarrow> 't \<times> 'w"
  isoformat :: "'t \<Rightarrow> string"
  str_timedelta :: "'t \<Rightarrow> 't \<Rightarrow> string"

text \<open>
  A value of \<^verbatim>\<open>test_results\<close>: the mapping of one test category, or a text (duration,
  timestamp). A \<^verbatim>\<open>dict\<close> is an association list in insertion order; \<^verbatim>\<open>d[k] = v\<close> is
  \<^const>\<open>AList.update\<close>.
\<close>

datatype result_value = Tests "(string \<times> string) list" | Text string

text \<open>The object: \<^verbatim>\<open>tn\<close> is \<^verbatim>\<open>None\<close> or the socket.\<close>

record tester =
  host :: string
  port :: int
  tn :: "unit option"
  test_results :: "(string \<times> result_value) list"

definition init_tester :: "string \<Rightarrow> int \<Rightarrow> tester" where
  "init_tester h p = \<lparr>host = h, port = p, tn = None, test_results = []\<rparr>"

definition connect_telnet :: "('w, 't) wifi_lib \<Rightarrow> (tester \<times> 'w, bool) io" where
  "connect_telnet L =
     io_try
       (io_bind (in_world (socket_socket L)) (\<lambda>_.
        io_bind (io_modify (\<lambda>self. self\<lparr>tn := Some ()\<rparr>)) (\<lambda>_.
        io_bind io_get (\<lambda>self.
        io_bind (in_world (sock_connect L (host self) (port self))) (\<lambda>_.
        io_return True)))))
       (\<lambda>e. io_return False)"

text \<open>
  The body of the \<^verbatim>\<open>try\<close> block of \<^verbatim>\<open>send_command\<close>. On a tester that never connected
  \<^verbatim>\<open>self.tn.send\<close> is an attribute of \<^verbatim>\<open>None\<close>.
\<close>

definition send_command_try :: "('w, 't) wifi_lib \<Rightarrow> string \<Rightarrow> nat \<Rightarrow> (tester \<times> 'w, string) io" where
  "send_command_try L command delay =
     io_bind io_get (\<lambda>self.
     case tn self of
       None \<Rightarrow> io_raise (Exn ('''NoneType' object has no attribute 'send'' @ [CHR 0x27]))
     | Some _ \<Rightarrow>
         io_bind (io_of (encode L (command @ CRLF))) (\<lambda>payload.
         io_bind (in_world (sock_send L payload)) (\<lambda>_.
         io_bind (world_do (sleep L delay)) (\<lambda>_.
         io_bind (in_world (sock_recv L 1024)) (\<lambda>data.
         io_bind (io_of (decode L data)) (\<lambda>text.
         io_return (strip text)))))))"

definition send_command :: "('w, 't) wifi_lib \<Rightarrow> string \<Rightarrow> nat \<Rightarrow> (tester \<times> 'w, string) io" where
  "send_command L command delay =
     io_try (send_command_try L command delay) (\<lambda>e. io_return (''Error: '' @ str e))"

text \<open>The default \<^verbatim>\<open>delay=0.5\<close>.\<close>

definition default_delay :: nat where
  "default_delay = 500"

definition test_wifi_module :: "('w, 't) wifi_lib \<Rightarrow> (tester \<times> 'w, (string \<times> string) list) io" where
  "test_wifi_module L =
     (let tests = [] in
      io_bind (send_command L ''WIFISTATUS'' default_delay) (\<lambda>status_response.
      let tests = AList.update ''wifi_status'' status_response tests in
      io_bind (send_command L ''WIFISCAN'' default_delay) (\<lambda>scan_response.
      let tests = AList.update ''wifi_scan'' scan_response tests in
      io_bind (send_command L ''WIFICONNECT'' default_delay) (\<lambda>conn_response.
      let tests = AList.update ''wifi_connect'' conn_response tests in
      io_bind (send_command L ''PING 8.8.8.8'' default_delay) (\<lambda>internet_response.
      let tests = AList.update ''internet_ping'' internet_response tests in
      io_bind (send_command L ''PING 192.168.1.1'' default_delay) (\<lambda>local_response.
      let tests = AList.update ''local_ping'' local_response tests in
      io_return tests))))))"

definition test_bluetooth_module :: "('w, 't) wifi_lib \<Rightarrow> (tester \<times> 'w, (string \<times> string) list) io" where
  "test_bluetooth_module L =
     (let tests = [] in
      io_bind (send_command L ''BTSTATUS'' default_delay) (\<lambda>status_response.
      let tests = AList.update ''bt_status'' status_response tests in
      io_bind (send_command L ''BTSCAN'' default_delay) (\<lambda>scan_response.
      let tests = AList.update ''bt_scan'' scan_response tests in
      io_bind (send_command L ''BTPAIR'' default_delay) (\<lambda>pair_response.
      let tests = AList.update ''bt_pair'' pair_response tests in
      io_return tests))))"

definition test_gps_module :: "('w, 't) wifi_lib \<Rightarrow> (tester \<times> 'w, (string \<times> string) list) io" where
  "test_gps_module L =
     (let tests = [] in
      io_bind (send_command L ''GPSSTATUS'' default_delay) (\<lambda>status_response.
      let tests = AList.update ''gps_status'' status_response tests in
      io_bind (send_command L ''GPSCOORDS'' default_delay) (\<lambda>coords_response.
      let tests = AList.update ''gps_coordinates'' coords_response tests in
      io_bind (send_command L ''GPSSAT'' default_delay) (\<lambda>sat_response.
      let tests = AList.update ''gps_satellites'' sat_response tests in
      io_bind (send_command L ''GPSTIME'' default_delay) (\<lambda>time_response.
      let tests = AList.update ''gps_time'' time_response tests in
      io_return tests)))))"

definition test_usb_relay :: "('w, 't) wifi_lib \<Rightarrow> (tester \<times> 'w, (string \<times> string) list) io" where
  "test_usb_relay L =
     (let tests = [] in
      io_bind (send_command L ''USBSTATUS'' default_delay) (\<lambda>status_response.
      let tests = AList.update ''usb_status'' status_response tests in
      io_bind (send_command L ''USBRELAY ON'' default_delay) (\<lambda>relay_response.
      let tests = AList.update ''usb_relay_on'' relay_response tests in
      io_bind (world_do (sleep L 1000)) (\<lambda>_.
      io_bind (send_command L ''USBRELAY OFF'' default_delay) (\<lambda>relay_off_response.
      let tests = AList.update ''usb_relay_off'' relay_off_response tests in
      io_return tests)))))"

definition test_device_info :: "('w, 't) wifi_lib \<Rightarrow> (tester \<times> 'w, (string \<times> string) list) io" where
  "test_device_info L =
     (let tests = [] in
      io_bind (send_command L ''VERSION'' default_delay) (\<lambda>version_response.
      let tests = AList.update ''device_version'' version_response tests in
      io_bind (send_command L ''UPTIME'' default_delay) (\<lambda>uptime_response.
      let tests = AList.update ''device_uptime'' uptime_response tests in
      io_bind (send_command L ''TEMPERATURE'' default_delay) (\<lambda>temp_response.
      let tests = AList.update ''device_temperature'' temp_response tests in
      io_bind (send_command L ''MEMORY'' default_delay) (\<lambda>memory_response.
      let tests = AList.update ''memory_status'' memory_response tests in
      io_return tests)))))"

text \<open>The names under which each battery files its responses, in the order of the source.\<close>

definition wifi_names :: "string list" where
  "wifi_names = [''wifi_status'', ''wifi_scan'', ''wifi_connect'', ''internet_ping'', ''local_ping'']"

definition bluetooth_names :: "string list" where
  "bluetooth_names = [''bt_status'', ''bt_scan'', ''bt_pair'']"

definition gps_names :: "string list" where
  "gps_names = [''gps_status'', ''gps_coordinates'', ''gps_satellites'', ''gps_time'']"

definition usb_names :: "string list" where
  "usb_names = [''usb_status'', ''usb_relay_on'', ''usb_relay_off'']"

definition device_names :: "string list" where
  "device_names = [''device_version'', ''device_uptime'', ''device_temperature'', ''memory_status'']"

text \<open>\<^verbatim>\<open>self.test_results[k] = v\<close>\<close>

definition set_result :: "string \<Rightarrow> result_value \<Rightarrow> (tester \<times> 'w, unit) io" where
  "set_result k v = io_modify (\<lambda>self. self\<lparr>test_results := AList.update k v (test_results self)\<rparr>)"

text \<open>\<^verbatim>\<open>run_all_tests\<close>: \<^verbatim>\<open>None\<close> when the connection fails, else \<^verbatim>\<open>self.test_results\<close>.\<close>

definition run_all_tests ::
  "('w, 't) wifi_lib \<Rightarrow> (tester \<times> 'w, (string \<times> result_value) list option) io" where
  "run_all_tests L =
     io_bind (connect_telnet L) (\<lambda>connected.
     if \<not> connected then io_return None
     else
       io_bind (world_get (datetime_now L)) (\<lambda>start_time.
       io_bind (test_wifi_module L) (\<lambda>wifi.
       io_bind (set_result ''wifi_tests'' (Tests wifi)) (\<lambda>_.
       io_bind (test_bluetooth_module L) (\<lambda>bluetooth.
       io_bind (set_result ''bluetooth_tests'' (Tests bluetooth)) (\<lambda>_.
       io_bind (test_gps_module L) (\<lambda>gps.
       io_bind (set_result ''gps_tests'' (Tests gps)) (\<lambda>_.
       io_bind (test_usb_relay L) (\<lambda>usb.
       io_bind (set_result ''usb_tests'' (Tests usb)) (\<lambda>_.
       io_bind (test_device_info L) (\<lambda>device.
       io_bind (set_result ''device_tests'' (Tests device)) (\<lambda>_.
       io_bind (world_get (datetime_now L)) (\<lambda>end_time.
       io_bind (set_result ''test_duration'' (Text (str_timedelta L end_time start_time))) (\<lambda>_.
       io_bind (set_result ''test_timestamp'' (Text (isoformat L start_time))) (\<lambda>_.
       io_bind (world_do (sock_close L)) (\<lambda>_.
       io_bind io_get (\<lambda>self.
       io_return (Some (test_results self)))))))))))))))))))"

section \<open>telescope_comm.py: the mount over telnet or a serial port\<close>


text \<open>
  The object; \<open>mount_tn\<close> and \<open>serial\<close> are \<^verbatim>\<open>self.tn\<close> and \<^verbatim>\<open>self.serial\<close>, each
  \<^verbatim>\<open>None\<close> or the open handle.
\<close>

record mount =
  mount_host :: "string option"
  mount_port :: int
  mount_timeout :: nat
  mount_tn :: "unit option"
  serial :: "unit option"
  connected :: bool







section \<open>A simulated line, for examples\<close>

text \<open>
  A device at the far end of a line. The world records the clock (milliseconds), the
  payloads written so far, and what is on its way back: nothing, or data that becomes
  readable at a point in time (empty data stands for the end of the stream). A device
  is a function from the payload written to its answer, \<open>Reply d data\<close> coming \<open>d\<close>
  milliseconds after the write.
\<close>

datatype traffic = Silent | Reply nat bytes

record line =
  clock :: nat
  sent :: "bytes list"
  incoming :: traffic

definition line0 :: line where
  "line0 = \<lparr>clock = 0, sent = [], incoming = Silent\<rparr>"

definition sim_send :: "(bytes \<Rightarrow> traffic) \<Rightarrow> bytes \<Rightarrow> (line, nat) io" where
  "sim_send dev payload = (\<lambda>w.
     (Inr (length payload),
      w\<lparr>sent := sent w @ [payload],
        incoming := (case dev payload of
                       Silent \<Rightarrow> Silent
                     | Reply d data \<Rightarrow> Reply (clock w + d) data)\<rparr>))"

text \<open>
  A blocking read on a socket with a timeout of \<open>T\<close> milliseconds: it waits for data and
  raises \<^verbatim>\<open>timed out\<close> when none has come by then.
\<close>

definition sim_recv :: "nat \<Rightarrow> nat \<Rightarrow> (line, bytes) io" where
  "sim_recv T n = (\<lambda>w.
     case incoming w of
       Silent \<Rightarrow> (Inl (Exn ''timed out''), w\<lparr>clock := clock w + T\<rparr>)
     | Reply t data \<Rightarrow>
         if t \<le> clock w + T
         then (Inr (take n data),
               w\<lparr>clock := max t (clock w),
                 incoming := (if length data \<le> n then Silent else Reply t (drop n data))\<rparr>)
         else (Inl (Exn ''timed out''), w\<lparr>clock := clock w + T\<rparr>))"



definition sim_sleep :: "nat \<Rightarrow> line \<Rightarrow> line" where
  "sim_sleep d w = w\<lparr>clock := clock w + d\<rparr>"

text \<open>
  The tester's library on the simulated line: the socket has the timeout of five seconds
  that \<^verbatim>\<open>connect_telnet\<close> sets, the codecs are those of ASCII text.
\<close>

definition sim_wifi_lib :: "(bytes \<Rightarrow> traffic) \<Rightarrow> (line, nat) wifi_lib" where
  "sim_wifi_lib dev =
     \<lparr>socket_socket = io_return (),
      sock_connect = (\<lambda>h p. io_return ()),
      sock_send = sim_send dev,
      sock_recv = sim_recv 5000,
      sock_close = (\<lambda>w. w),
      encode = Inr,
      decode = Inr,
      sleep = sim_sleep,
      datetime_now = (\<lambda>w. (clock w, w)),
      isoformat = str_nat,
      str_timedelta = (\<lambda>e b. str_nat (e - b))\<rparr>"

text \<open>The same line after the far end has gone: every write raises.\<close>

definition broken_wifi_lib :: "(line, nat) wifi_lib" where
  "broken_wifi_lib = (sim_wifi_lib (\<lambda>payload. Silent))\<lparr>sock_send := (\<lambda>payload. io_raise (Exn ''Broken pipe''))\<rparr>"




definition version_device :: "bytes \<Rightarrow> traffic" where
  "version_device payload =
     (if payload = ''VERSION'' @ CRLF then Reply 100 (''v1.2.3'' @ CRLF) else Reply 100 [])"


text \<open>A tester after \<^verbatim>\<open>connect_telnet\<close>, a mount connected by telnet and one by serial port.\<close>

definition open_tester :: tester where
  "open_tester = (init_tester ''192.168.68.5'' 2000)\<lparr>tn := Some ()\<rparr>"



section \<open>wifi_bt_gps_test.py: saving the results as JSON\<close>

text \<open>
  \<^verbatim>\<open>save_results\<close> hands \<^verbatim>\<open>self.test_results\<close> to \<^verbatim>\<open>json.dump\<close>. The library is modelled
  from its documentation, with the names of its functions, on the JSON values a result
  set consists of: objects and strings.
\<close>

datatype json = JStr string | JObj "(string \<times> json) list"

text \<open>The double quote and the backslash.\<close>

definition dquote :: char where "dquote = CHR 0x22"
definition backslash :: char where "backslash = CHR 0x5C"

text \<open>
  \<^verbatim>\<open>encode_basestring_ascii\<close>, the string encoder of \<^verbatim>\<open>json.dump\<close> under its default
  \<^verbatim>\<open>ensure_ascii=True\<close>: the quote, the backslash and the five control characters with a
  short escape get it; every other character outside the printable ASCII range from
  space to tilde becomes \<^verbatim>\<open>\uXXXX\<close> with four lower-case hexadecimal digits.
\<close>

definition hex_digit :: "nat \<Rightarrow> char" where
  "hex_digit d = (if d < 10 then char_of (48 + d) else char_of (87 + d))"

definition json_escape :: "char \<Rightarrow> string" where
  "json_escape c =
     (let n = (of_char c :: nat) in
      if c = dquote then [backslash, dquote]
      else if c = backslash then [backslash, backslash]
      else if n = 10 then [backslash, CHR ''n'']
      else if n = 13 then [backslash, CHR ''r'']
      else if n = 9 then [backslash, CHR ''t'']
      else if n = 12 then [backslash, CHR ''f'']
      else if n = 8 then [backslash, CHR ''b'']
      else if 32 \<le> n \<and> n \<le> 126 then [c]
      else [backslash, CHR ''u'', CHR ''0'', CHR ''0'', hex_digit (n div 16), hex_digit (n mod 16)])"

definition encode_basestring_ascii :: "string \<Rightarrow> string" where
  "encode_basestring_ascii s = dquote # concat (map json_escape s) @ [dquote]"

text \<open>
  The encoder of \<^verbatim>\<open>json.dump(obj, f, indent=2)\<close> on objects and strings: an empty object
  is \<^verbatim>\<open>{}\<close>; otherwise each member stands on a line of its own, indented by two spaces per
  level, with \<^verbatim>\<open>,\<close> after every member but the last and \<^verbatim>\<open>: \<close> between key and value.
\<close>

definition newline_indent :: "nat \<Rightarrow> string" where
  "newline_indent lvl = CHR 0x0A # replicate (2 * lvl) (CHR '' '')"

fun iterencode :: "nat \<Rightarrow> json \<Rightarrow> string"
  and iterencode_items :: "nat \<Rightarrow> (string \<times> json) list \<Rightarrow> string" where
  "iterencode lvl (JStr s) = encode_basestring_ascii s"
| "iterencode lvl (JObj dct) =
     (if dct = [] then ''{}''
      else ''{'' @ newline_indent (Suc lvl) @ iterencode_items (Suc lvl) dct @
           newline_indent lvl @ ''}'')"
| "iterencode_items lvl [] = []"
| "iterencode_items lvl ((k, v) # rest) =
     encode_basestring_ascii k @ '': '' @ iterencode lvl v @
     (if rest = [] then [] else '','' @ newline_indent lvl @ iterencode_items lvl rest)"

text \<open>
  The decoder \<^verbatim>\<open>scanstring\<close> of \<^verbatim>\<open>json.load\<close>, after the opening quote: it ends at the
  closing quote, resolves the escapes, and refuses a control character and a broken
  escape. A \<^verbatim>\<open>\uXXXX\<close> beyond 255 lies outside the texts of the model and is refused too.
\<close>

definition hex_value :: "char \<Rightarrow> nat option" where
  "hex_value c =
     (let n = (of_char c :: nat) in
      if 48 \<le> n \<and> n \<le> 57 then Some (n - 48)
      else if 97 \<le> n \<and> n \<le> 102 then Some (n - 87)
      else if 65 \<le> n \<and> n \<le> 70 then Some (n - 55)
      else None)"

definition decode_uXXXX :: "char \<Rightarrow> char \<Rightarrow> char \<Rightarrow> char \<Rightarrow> nat option" where
  "decode_uXXXX a b c d =
     (case (hex_value a, hex_value b, hex_value c, hex_value d) of
        (Some x, Some y, Some z, Some u) \<Rightarrow> Some (4096 * x + 256 * y + 16 * z + u)
      | _ \<Rightarrow> None)"

definition unescape :: "char \<Rightarrow> char option" where
  "unescape e =
     (if e = dquote then Some dquote
      else if e = backslash then Some backslash
      else if e = CHR ''/'' then Some (CHR ''/'')
      else if e = CHR ''b'' then Some (CHR 0x08)
      else if e = CHR ''f'' then Some (CHR 0x0C)
      else if e = CHR ''n'' then Some (CHR 0x0A)
      else if e = CHR ''r'' then Some (CHR 0x0D)
      else if e = CHR ''t'' then Some (CHR 0x09)
      else None)"

fun scanstring :: "string \<Rightarrow> string \<Rightarrow> (string \<times> string) option" where
  "scanstring acc [] = None"
| "scanstring acc (c # r) =
     (if c = dquote then Some (rev acc, r)
      else if c = backslash then
        (case r of
           [] \<Rightarrow> None
         | e # r' \<Rightarrow>
             if e = CHR ''u'' then
               (case r' of
                  a # b # c' # d # r'' \<Rightarrow>
                    (case decode_uXXXX a b c' d of
                       Some n \<Rightarrow> if n < 256 then scanstring (char_of n # acc) r'' else None
                     | None \<Rightarrow> None)
                | _ \<Rightarrow> None)
             else
               (case unescape e of
                  Some ch \<Rightarrow> scanstring (ch # acc) r'
                | None \<Rightarrow> None))
      else if (of_char c :: nat) < 32 then None
      else scanstring (c # acc) r)"

text \<open>
  The decoder of values. \<^verbatim>\<open>scan_once\<close> reads a string or an object; of an object it reads
  the members in turn, skipping white space around keys, colons, values and commas, and
  builds the \<^verbatim>\<open>dict\<close> from the pairs in the order read, a repeated key keeping its place
  and taking the later value. Arrays, numbers and the literals are not modelled (a result
  set holds none) and are refused. The recursion runs on fuel; \<^verbatim>\<open>json.loads\<close> gives it the
  length of the text, which suffices, and refuses text after the value.
\<close>

definition is_json_ws :: "char \<Rightarrow> bool" where
  "is_json_ws c = (c = CHR '' '' \<or> c = CHR 0x09 \<or> c = CHR 0x0A \<or> c = CHR 0x0D)"

definition skip_ws :: "string \<Rightarrow> string" where
  "skip_ws s = dropWhile is_json_ws s"

fun scan_once :: "nat \<Rightarrow> string \<Rightarrow> (json \<times> string) option"
  and scan_pairs :: "nat \<Rightarrow> (string \<times> json) list \<Rightarrow> string \<Rightarrow> ((string \<times> json) list \<times> string) option" where
  "scan_once 0 s = None"
| "scan_once (Suc n) s =
     (case s of
        [] \<Rightarrow> None
      | c # r \<Rightarrow>
          if c = dquote then
            (case scanstring [] r of
               Some (t, r') \<Rightarrow> Some (JStr t, r')
             | None \<Rightarrow> None)
          else if c = CHR ''{'' then
            (case skip_ws r of
               [] \<Rightarrow> None
             | c' # r' \<Rightarrow>
                 if c' = CHR ''}'' then Some (JObj [], r')
                 else
                   (case scan_pairs n [] (c' # r') of
                      Some (pairs, r'') \<Rightarrow> Some (JObj pairs, r'')
                    | None \<Rightarrow> None))
          else None)"
| "scan_pairs 0 pairs s = None"
| "scan_pairs (Suc n) pairs s =
     (case s of
        [] \<Rightarrow> None
      | c # r \<Rightarrow>
          if c = dquote then
            (case scanstring [] r of
               None \<Rightarrow> None
             | Some (k, r1) \<Rightarrow>
                 (case skip_ws r1 of
                    [] \<Rightarrow> None
                  | c2 # r2 \<Rightarrow>
                      if c2 = CHR '':'' then
                        (case scan_once n (skip_ws r2) of
                           None \<Rightarrow> None
                         | Some (v, r3) \<Rightarrow>
                             (case skip_ws r3 of
                                [] \<Rightarrow> None
                              | c3 # r4 \<Rightarrow>
                                  if c3 = CHR ''}'' then Some (AList.update k v pairs, r4)
                                  else if c3 = CHR '','' then
                                    scan_pairs n (AList.update k v pairs) (skip_ws r4)
                                  else None))
                      else None))
          else None)"

definition json_loads :: "string \<Rightarrow> json option" where
  "json_loads s =
     (case scan_once (length s) (skip_ws s) of
        Some (v, r) \<Rightarrow> if skip_ws r = [] then Some v else None
      | None \<Rightarrow> None)"

text \<open>A JSON value that is the image of Python data: the keys of each \<^verbatim>\<open>dict\<close> differ.\<close>

fun dict_ok :: "json \<Rightarrow> bool" where
  "dict_ok (JStr s) = True"
| "dict_ok (JObj dct) = (distinct (map fst dct) \<and> list_all (\<lambda>kv. dict_ok (snd kv)) dct)"

text \<open>The fuel the decoder needs for the text of a value.\<close>

fun fuel :: "json \<Rightarrow> nat"
  and fuel_items :: "(string \<times> json) list \<Rightarrow> nat" where
  "fuel (JStr s) = 1"
| "fuel (JObj dct) = Suc (fuel_items dct)"
| "fuel_items [] = 0"
| "fuel_items ((k, v) # rest) = Suc (max (fuel v) (fuel_items rest))"

text \<open>A result set as the JSON value \<^verbatim>\<open>json.dump\<close> sees.\<close>

fun value_json :: "result_value \<Rightarrow> json" where
  "value_json (Tests tests) = JObj (map (\<lambda>(name, response). (name, JStr response)) tests)"
| "value_json (Text s) = JStr s"

definition results_json :: "(string \<times> result_value) list \<Rightarrow> json" where
  "results_json results = JObj (map (\<lambda>(category, v). (category, value_json v)) results)"

text \<open>A result set that is a \<^verbatim>\<open>dict\<close> of \<^verbatim>\<open>dict\<close>s and texts: no key occurs twice.\<close>

fun tests_ok :: "result_value \<Rightarrow> bool" where
  "tests_ok (Tests tests) = distinct (map fst tests)"
| "tests_ok (Text s) = True"

definition results_ok :: "(string \<times> result_value) list \<Rightarrow> bool" where
  "results_ok results = (distinct (map fst results) \<and> list_all (\<lambda>kv. tests_ok (snd kv)) results)"

text \<open>
  The disk: the text of each file, for each path the exception that opening it for writing
  raises (if any), and the wall clock.
\<close>

record 't disk =
  files :: "string \<rightharpoonup> string"
  refusal :: "string \<Rightarrow> exn option"
  wall_clock :: 't

text \<open>
  \<^verbatim>\<open>with open(filename, 'w') as f: json.dump(obj, f, indent=2)\<close>: the file is created or
  truncated and holds the text of the value afterwards.
\<close>

definition open_dump :: "string \<Rightarrow> json \<Rightarrow> ('t disk, unit) io" where
  "open_dump filename obj = (\<lambda>d.
     case refusal d filename of
       Some e \<Rightarrow> (Inl e, d)
     | None \<Rightarrow> (Inr (), d\<lparr>files := (files d)(filename \<mapsto> iterencode 0 obj)\<rparr>))"

text \<open>
  \<^verbatim>\<open>save_results(filename=None)\<close>; \<open>strftime\<close> is
  \<^verbatim>\<open>datetime.strftime("%Y%m%d_%H%M%S")\<close>. An exception of \<^verbatim>\<open>open\<close> is not caught.
\<close>

definition save_results :: "('t \<Rightarrow> string) \<Rightarrow> string option \<Rightarrow> (tester \<times> 't disk, string) io" where
  "save_results strftime filename =
     io_bind
       (if filename = None \<or> filename = Some [] then
          io_bind (world_get (\<lambda>d. (wall_clock d, d))) (\<lambda>now.
          let timestamp = strftime now in
          io_return (''wifi_bt_gps_test_'' @ timestamp @ ''.json''))
        else io_return (case filename of Some f \<Rightarrow> f | None \<Rightarrow> []))
       (\<lambda>filename.
     io_bind io_get (\<lambda>self.
     io_bind (in_world (open_dump filename (results_json (test_results self)))) (\<lambda>_.
     io_return filename)))"

text \<open>The path \<^verbatim>\<open>save_results\<close> writes to.\<close>

definition target_file :: "('t \<Rightarrow> string) \<Rightarrow> string option \<Rightarrow> 't disk \<Rightarrow> string" where
  "target_file strftime filename d =
     (case filename of
        None \<Rightarrow> ''wifi_bt_gps_test_'' @ strftime (wall_clock d) @ ''.json''
      | Some f \<Rightarrow> if f = [] then ''wifi_bt_gps_test_'' @ strftime (wall_clock d) @ ''.json'' else f)"

text \<open>Parsing a file back: \<^verbatim>\<open>json.load(open(filename))\<close>, nothing when it fails.\<close>

definition json_load_file :: "string \<Rightarrow> 't disk \<Rightarrow> json option" where
  "json_load_file filename d =
     (case files d filename of
        None \<Rightarrow> None
      | Some s \<Rightarrow> json_loads s)"

text \<open>
  For examples: an empty disk, and a tester whose results hold a quote, a backslash, a
  line feed and a character beyond ASCII.
\<close>

definition disk0 :: "nat disk" where
  "disk0 = \<lparr>files = Map.empty, refusal = (\<lambda>f. None), wall_clock = 7\<rparr>"

definition odd_results :: "(string \<times> result_value) list" where
  "odd_results =
     [(''device_tests'', Tests [(''device_version'', ''v1.2.3''), (''device_uptime'', [])]),
      (''usb_tests'', Tests []),
      (''test_duration'', Text (''0:00:10'' @ [CHR 0x0A, CHR 0x22, CHR 0xE9, CHR 0x5C, CHR 0x7F])),
      (''test_timestamp'', Text ''2025-01-02T03:04:05.678901'')]"

definition odd_tester :: tester where
  "odd_tester = (init_tester ''192.168.68.5'' 2000)\<lparr>tn := Some (), test_results := odd_results\<rparr>"

text \<open>A device that never answers \<^verbatim>\<open>MS\<close> and answers \<^verbatim>\<open>ok\<close> to everything else.\<close>

definition ms_silent_device :: "bytes \<Rightarrow> traffic" where
  "ms_silent_device payload =
     (if payload = ''MS'' @ CRLF then Silent else Reply 100 (''ok'' @ CRLF))"

section \<open>Properties of the subnet sweep\<close>

lemma scan_port_eq: "scan_port net ip p t = Inr (net ip p t = Returns 0)"
  by (simp add: scan_port_def scan_port_try_def split: connect_outcome.split)

lemma of_char_digit: "d < 10 \<Longrightarrow> (of_char (digit_char d) :: nat) = 48 + d"
  by (simp add: digit_char_def)

lemma nat_of_str_snoc: "nat_of_str (s @ [c]) = 10 * nat_of_str s + (of_char c - 48)"
  by (simp add: nat_of_str_def)

lemma nat_of_str_str_nat: "nat_of_str (str_nat n) = n"
proof (induction n rule: str_nat.induct)
  case (1 n)
  show ?case
  proof (cases "n < 10")
    case True
    then show ?thesis
      by (subst str_nat.simps) (simp add: nat_of_str_def of_char_digit)
  next
    case False
    with 1 have ih: "nat_of_str (str_nat (n div 10)) = n div 10" by simp
    have "n mod 10 < 10" by simp
    then have d: "(of_char (digit_char (n mod 10)) :: nat) = 48 + n mod 10"
      by (rule of_char_digit)
    from False show ?thesis
      by (subst str_nat.simps) (simp add: nat_of_str_snoc ih d)
  qed
qed

lemma suffix_of_ip_of: "suffix_of (ip_of i) = i"
  by (simp add: suffix_of_def ip_of_def nat_of_str_str_nat)

lemma sweep_loop_eq:
  "i \<le> 255 \<Longrightarrow>
   sweep_loop net i found = Inr (found @ map ip_of (filter (\<lambda>j. accepts net (ip_of j)) [i..<255]))"
proof (induction net i found rule: sweep_loop.induct)
  case (1 net i found)
  show ?case
  proof (cases "i < 255")
    case False
    with 1(3) have "i = 255" by simp
    then show ?thesis by (subst sweep_loop.simps) simp
  next
    case True
    then have upt: "[i..<255] = i # [Suc i..<255]" by (simp add: upt_conv_Cons)
    have sp: "scan_port net (ip_of i) 2000 500 = Inr (accepts net (ip_of i))"
      by (simp add: scan_port_eq accepts_def)
    show ?thesis
    proof (cases "accepts net (ip_of i)")
      case True
      from 1(1)[OF \<open>i < 255\<close> sp True] \<open>i < 255\<close>
      have "sweep_loop net (Suc i) (found @ [ip_of i]) =
            Inr ((found @ [ip_of i]) @ map ip_of (filter (\<lambda>j. accepts net (ip_of j)) [Suc i..<255]))"
        by simp
      with True \<open>i < 255\<close> sp upt show ?thesis
        by (subst sweep_loop.simps) simp
    next
      case False
      from 1(2)[OF \<open>i < 255\<close> sp False] \<open>i < 255\<close>
      have "sweep_loop net (Suc i) found =
            Inr (found @ map ip_of (filter (\<lambda>j. accepts net (ip_of j)) [Suc i..<255]))"
        by simp
      with False \<open>i < 255\<close> sp upt show ?thesis
        by (subst sweep_loop.simps) simp
    qed
  qed
qed

lemma sweep_eq: "sweep net = Inr (map ip_of (filter (\<lambda>j. accepts net (ip_of j)) [1..<255]))"
  by (simp add: sweep_def sweep_loop_eq)

lemma suffixes_of_hits: "map suffix_of (map ip_of ns) = ns"
  by (induction ns) (simp_all add: suffix_of_ip_of)

lemma hits_ascending: "sorted_wrt (<) (filter P [1..<255])"
  by (rule sorted_wrt_filter) simp

lemma filter_agree:
  "(\<forall>i. 1 \<le> i \<and> i \<le> 254 \<longrightarrow> P i = Q i) \<Longrightarrow> filter P [1..<255] = filter Q [1..<255]"
  by (rule filter_cong) auto

text \<open>
  Claim C9. For every address and every outcome of the connect, \<^verbatim>\<open>scan_port\<close> returns a
  boolean and never raises: \<^verbatim>\<open>True\<close> exactly when \<^verbatim>\<open>connect_ex\<close> returned 0, \<^verbatim>\<open>False\<close> for
  every other error number and for every exception, whatever its kind.
\<close>

theorem scan_port_total:
  "(\<exists>b. scan_port net ip p t = Inr b) \<and>
   (scan_port net ip p t = Inr True \<longleftrightarrow> net ip p t = Returns 0) \<and>
   (\<forall>r. net ip p t = Returns r \<and> r \<noteq> 0 \<longrightarrow> scan_port net ip p t = Inr False) \<and>
   (\<forall>e. net ip p t = Raises e \<longrightarrow> scan_port net ip p t = Inr False)"
  by (simp add: scan_port_eq)

theorem scan_port_total_witness:
  "scan_port only_host_5 ''192.168.68.5'' 2000 500 = Inr True \<and>
   scan_port only_host_5 ''192.168.68.6'' 2000 500 = Inr False \<and>
   scan_port unplugged ''192.168.68.5'' 2000 500 = Inr False"
  using scan_port_total [of only_host_5 "''192.168.68.5''" 2000 500]
    scan_port_total [of only_host_5 "''192.168.68.6''" 2000 500]
    scan_port_total [of unplugged "''192.168.68.5''" 2000 500]
  by (simp add: only_host_5_def unplugged_def)

lemma ip_of_5: "ip_of 5 = ''192.168.68.5''"
  by code_simp

lemma ip_of_inj: "ip_of i = ip_of j \<Longrightarrow> i = j"
proof -
  assume "ip_of i = ip_of j"
  then have "suffix_of (ip_of i) = suffix_of (ip_of j)" by simp
  then show "i = j" by (simp only: suffix_of_ip_of)
qed

lemma accepts_only_host_5: "accepts only_host_5 (ip_of i) \<longleftrightarrow> i = 5"
proof -
  have "ip_of i = ip_of 5 \<longleftrightarrow> i = 5"
    using ip_of_inj by blast
  then show ?thesis
    by (simp add: accepts_def only_host_5_def ip_of_5)
qed

lemma filter_eq_single:
  "a \<le> k \<Longrightarrow> k < b \<Longrightarrow> filter (\<lambda>i. i = k) [a..<b] = [k]"
proof -
  assume ak: "a \<le> k" and kb: "k < b"
  have "[a..<k + (b - k)] = [a..<k] @ [k..<k + (b - k)]"
    using ak by (rule upt_add_eq_append)
  with kb have "[a..<b] = [a..<k] @ [k..<b]" by simp
  also have "[k..<b] = k # [Suc k..<b]" using kb by (simp add: upt_conv_Cons)
  finally have split: "[a..<b] = [a..<k] @ k # [Suc k..<b]" .
  have l: "filter (\<lambda>i. i = k) [a..<k] = []" by (simp add: filter_empty_conv)
  have r: "filter (\<lambda>i. i = k) [Suc k..<b] = []" by (simp add: filter_empty_conv)
  show ?thesis by (simp add: split l r)
qed

lemma only_host_5_hits: "filter (\<lambda>i. accepts only_host_5 (ip_of i)) [1..<255] = [5]"
  by (simp only: accepts_only_host_5) (rule filter_eq_single, simp_all)

text \<open>
  Claim C3. For every network the sweep ends without raising; its list holds the
  addresses \<^verbatim>\<open>192.168.68.i\<close> with \<open>i\<close> from 1 to 254 that accept, in strictly ascending
  order of the suffix \<open>i\<close>; an address of that range is in the list exactly when it accepts;
  the list is empty when none accepts; and nothing but the answers of these 254 addresses
  bears on the result.
\<close>

theorem sweep_ascending:
  "\<exists>found. sweep net = Inr found \<and>
     found = map ip_of (filter (\<lambda>i. accepts net (ip_of i)) [1..<255]) \<and>
     sorted_wrt (<) (map suffix_of found) \<and>
     (\<forall>ip \<in> set found. 1 \<le> suffix_of ip \<and> suffix_of ip \<le> 254 \<and> ip = ip_of (suffix_of ip)) \<and>
     (\<forall>i. 1 \<le> i \<and> i \<le> 254 \<longrightarrow> (ip_of i \<in> set found \<longleftrightarrow> accepts net (ip_of i))) \<and>
     ((\<forall>i. 1 \<le> i \<and> i \<le> 254 \<longrightarrow> \<not> accepts net (ip_of i)) \<longrightarrow> found = []) \<and>
     (\<forall>net'. (\<forall>i. 1 \<le> i \<and> i \<le> 254 \<longrightarrow> accepts net' (ip_of i) = accepts net (ip_of i))
        \<longrightarrow> sweep net' = Inr found)"
proof -
  let ?hits = "filter (\<lambda>i. accepts net (ip_of i)) [1..<255]"
  let ?found = "map ip_of ?hits"
  have a: "sweep net = Inr ?found" by (rule sweep_eq)
  have b: "sorted_wrt (<) (map suffix_of ?found)"
    by (simp only: suffixes_of_hits hits_ascending)
  have c: "\<forall>ip \<in> set ?found. 1 \<le> suffix_of ip \<and> suffix_of ip \<le> 254 \<and> ip = ip_of (suffix_of ip)"
    by (auto simp: suffix_of_ip_of)
  have d: "\<forall>i. 1 \<le> i \<and> i \<le> 254 \<longrightarrow> (ip_of i \<in> set ?found \<longleftrightarrow> accepts net (ip_of i))"
    by (auto simp: image_iff)
  have e: "(\<forall>i. 1 \<le> i \<and> i \<le> 254 \<longrightarrow> \<not> accepts net (ip_of i)) \<longrightarrow> ?found = []"
    by (auto simp: filter_empty_conv)
  have f: "\<forall>net'. (\<forall>i. 1 \<le> i \<and> i \<le> 254 \<longrightarrow> accepts net' (ip_of i) = accepts net (ip_of i))
        \<longrightarrow> sweep net' = Inr ?found"
  proof (intro allI impI)
    fix net'
    assume "\<forall>i. 1 \<le> i \<and> i \<le> 254 \<longrightarrow> accepts net' (ip_of i) = accepts net (ip_of i)"
    then have "filter (\<lambda>i. accepts net' (ip_of i)) [1..<255] = ?hits"
      by (rule filter_agree)
    then show "sweep net' = Inr ?found" by (simp add: sweep_eq)
  qed
  from a b c d e f show ?thesis by blast
qed

theorem sweep_ascending_witness:
  "sweep only_host_5 = Inr [''192.168.68.5''] \<and> sweep unplugged = Inr []"
proof -
  have none: "\<forall>i. 1 \<le> i \<and> i \<le> 254 \<longrightarrow> \<not> accepts unplugged (ip_of i)"
    by (simp add: accepts_def unplugged_def)
  from sweep_ascending [of only_host_5] obtain found where
    s5: "sweep only_host_5 = Inr found" and
    f5: "found = map ip_of (filter (\<lambda>i. accepts only_host_5 (ip_of i)) [1..<255])"
    by (elim exE conjE)
  from f5 have "found = [ip_of 5]"
    by (simp only: only_host_5_hits list.map)
  with s5 have a: "sweep only_host_5 = Inr [''192.168.68.5'']"
    by (simp only: ip_of_5)
  from sweep_ascending [of unplugged] obtain found' where
    s0: "sweep unplugged = Inr found'" and
    f0: "(\<forall>i. 1 \<le> i \<and> i \<le> 254 \<longrightarrow> \<not> accepts unplugged (ip_of i)) \<longrightarrow> found' = []"
    by (elim exE conjE)
  from f0 none have "found' = []" by (rule mp)
  with s0 have b: "sweep unplugged = Inr []" by (simp only:)
  from a b show ?thesis by (rule conjI)
qed

section \<open>Properties of the port detection\<close>

lemma starts_with_iff: "starts_with s sub \<longleftrightarrow> (\<exists>post. s = sub @ post)"
  by (induction s sub rule: starts_with.induct) auto

lemma str_in_iff: "str_in sub s \<longleftrightarrow> (\<exists>pre post. s = pre @ sub @ post)"
proof (induction s)
  case Nil
  then show ?case by auto
next
  case (Cons d s)
  show ?case
  proof
    assume "str_in sub (d # s)"
    then consider "starts_with (d # s) sub" | "str_in sub s" by auto
    then show "\<exists>pre post. d # s = pre @ sub @ post"
    proof cases
      case 1
      then obtain post where "d # s = sub @ post" by (auto simp: starts_with_iff)
      then have "d # s = [] @ sub @ post" by simp
      then show ?thesis by blast
    next
      case 2
      with Cons obtain pre post where "s = pre @ sub @ post" by auto
      then have "d # s = (d # pre) @ sub @ post" by simp
      then show ?thesis by blast
    qed
  next
    assume "\<exists>pre post. d # s = pre @ sub @ post"
    then obtain pre post where eq: "d # s = pre @ sub @ post" by blast
    show "str_in sub (d # s)"
    proof (cases pre)
      case Nil
      with eq have "starts_with (d # s) sub" by (auto simp: starts_with_iff)
      then show ?thesis by simp
    next
      case (Cons a pre')
      with eq have "s = pre' @ sub @ post" by simp
      with Cons.IH have "str_in sub s" by blast
      then show ?thesis by simp
    qed
  qed
qed

lemma keyword_loop_eq:
  "keyword_loop kws pt = (if port_matches kws pt then Some (device pt) else None)"
  by (induction kws) (auto simp: port_matches_def)

lemma port_loop_eq:
  "port_loop kws ports = map_option device (List.find (port_matches kws) ports)"
  by (induction ports) (simp_all add: keyword_loop_eq)

lemma port_matches_set: "set kws' = set kws \<Longrightarrow> port_matches kws' pt = port_matches kws pt"
  by (simp add: port_matches_def)

lemma port_matches_case: "same_but_case p q \<Longrightarrow> port_matches kws p = port_matches kws q"
  by (simp add: port_matches_def same_but_case_def)

lemma lower_char_idem: "lower_char (lower_char c) = lower_char c"
proof -
  have "(of_char c :: nat) < 256" by simp
  then show ?thesis
    by (auto simp: lower_char_def Let_def)
qed

lemma lower_idem: "lower (lower s) = lower s"
  by (simp add: lower_def lower_char_idem)

lemma port_loop_case:
  "list_all2 same_but_case ps qs \<Longrightarrow> port_loop kws ps = port_loop kws qs"
proof (induction ps qs rule: list_all2_induct)
  case Nil
  then show ?case by simp
next
  case (Cons p ps q qs)
  from Cons(1) have m: "port_matches kws p = port_matches kws q" by (rule port_matches_case)
  from Cons(1) have d: "device p = device q" by (simp add: same_but_case_def)
  from Cons(3) m d show ?case
    by (simp add: keyword_loop_eq)
qed

lemma port_loop_set: "set kws' = set kws \<Longrightarrow> port_loop kws' ports = port_loop kws ports"
  by (simp add: port_loop_eq port_matches_set [of kws' kws] cong: find_cong)

lemma lower_case_blind: "same_but_case p (p\<lparr>description := lower (description p), hwid := lower (hwid p)\<rparr>)"
  by (simp add: same_but_case_def lower_idem)

lemma com1_no: "port_matches homebrew_keywords com1 = False"
  by code_simp
lemma com3_yes: "port_matches homebrew_keywords com3 = True"
  by code_simp
lemma com7_yes: "port_matches homebrew_keywords com7 = True"
  by code_simp
lemma com3_case: "same_but_case com3 com3_upper"
  by code_simp

lemma detect_some_iff:
  "detect_homebrew_port (Some ports) = Inr (Some dev) \<longleftrightarrow>
     (\<exists>i < length ports. port_matches homebrew_keywords (ports ! i) \<and> dev = device (ports ! i) \<and>
        (\<forall>j < i. \<not> port_matches homebrew_keywords (ports ! j)))"
proof -
  have "detect_homebrew_port (Some ports) = Inr (Some dev) \<longleftrightarrow>
      (\<exists>p. List.find (port_matches homebrew_keywords) ports = Some p \<and> dev = device p)"
    by (auto simp: detect_homebrew_port_def port_loop_eq)
  also have "\<dots> \<longleftrightarrow> (\<exists>i < length ports. port_matches homebrew_keywords (ports ! i) \<and>
        dev = device (ports ! i) \<and> (\<forall>j < i. \<not> port_matches homebrew_keywords (ports ! j)))"
    by (auto simp: find_Some_iff)
  finally show ?thesis .
qed

lemma detect_none_iff:
  "detect_homebrew_port (Some ports) = Inr None \<longleftrightarrow>
     (\<forall>p \<in> set ports. \<not> port_matches homebrew_keywords p)"
  by (auto simp: detect_homebrew_port_def port_loop_eq find_None_iff)

lemma port_matches_iff:
  "port_matches kws pt \<longleftrightarrow>
     (\<exists>k \<in> set kws. \<exists>pre post.
        lower (description pt) = pre @ lower k @ post \<or> lower (hwid pt) = pre @ lower k @ post)"
  unfolding port_matches_def str_in_iff by blast

text \<open>
  Claim C7. For every sequence of port descriptors, \<^verbatim>\<open>detect_homebrew_port\<close> returns the
  device path of the first descriptor, in the order of the enumeration, whose description
  or hardware ID contains a keyword with case ignored (no earlier descriptor matches), and
  \<^verbatim>\<open>None\<close> exactly when no descriptor matches; changing the case of letters in the
  descriptors does not change the answer, and neither does the order of the keyword table.
\<close>

theorem detect_first_match:
  "detect_homebrew_port (Some ports) =
     Inr (map_option device (List.find (port_matches homebrew_keywords) ports)) \<and>
   (\<forall>dev. detect_homebrew_port (Some ports) = Inr (Some dev) \<longleftrightarrow>
      (\<exists>i < length ports. port_matches homebrew_keywords (ports ! i) \<and> dev = device (ports ! i) \<and>
         (\<forall>j < i. \<not> port_matches homebrew_keywords (ports ! j)))) \<and>
   (detect_homebrew_port (Some ports) = Inr None \<longleftrightarrow>
      (\<forall>p \<in> set ports. \<not> port_matches homebrew_keywords p)) \<and>
   (\<forall>kws pt. port_matches kws pt \<longleftrightarrow>
      (\<exists>k \<in> set kws. \<exists>pre post.
         lower (description pt) = pre @ lower k @ post \<or> lower (hwid pt) = pre @ lower k @ post)) \<and>
   (\<forall>ports'. list_all2 same_but_case ports ports' \<longrightarrow>
      detect_homebrew_port (Some ports') = detect_homebrew_port (Some ports)) \<and>
   (\<forall>kws kws'. set kws' = set kws \<longrightarrow> port_loop kws' ports = port_loop kws ports)"
proof -
  have a: "detect_homebrew_port (Some ports) =
     Inr (map_option device (List.find (port_matches homebrew_keywords) ports))"
    by (simp add: detect_homebrew_port_def port_loop_eq)
  have e: "\<forall>ports'. list_all2 same_but_case ports ports' \<longrightarrow>
      detect_homebrew_port (Some ports') = detect_homebrew_port (Some ports)"
  proof (intro allI impI)
    fix ports' assume "list_all2 same_but_case ports ports'"
    then have "port_loop homebrew_keywords ports = port_loop homebrew_keywords ports'"
      by (rule port_loop_case)
    then show "detect_homebrew_port (Some ports') = detect_homebrew_port (Some ports)"
      by (simp add: detect_homebrew_port_def)
  qed
  have f: "\<forall>kws kws'. set kws' = set kws \<longrightarrow> port_loop kws' ports = port_loop kws ports"
    using port_loop_set by blast
  have b: "\<forall>dev. detect_homebrew_port (Some ports) = Inr (Some dev) \<longleftrightarrow>
      (\<exists>i < length ports. port_matches homebrew_keywords (ports ! i) \<and> dev = device (ports ! i) \<and>
         (\<forall>j < i. \<not> port_matches homebrew_keywords (ports ! j)))"
    using detect_some_iff by blast
  have d: "\<forall>kws pt. port_matches kws pt \<longleftrightarrow>
      (\<exists>k \<in> set kws. \<exists>pre post.
         lower (description pt) = pre @ lower k @ post \<or> lower (hwid pt) = pre @ lower k @ post)"
    using port_matches_iff by blast
  from a b detect_none_iff [of ports] d e f show ?thesis by (intro conjI)
qed

theorem detect_first_match_witness:
  "detect_homebrew_port (Some [com1, com3, com7]) = Inr (Some ''COM3'') \<and>
   detect_homebrew_port (Some [com1, com3_upper, com7]) = Inr (Some ''COM3'') \<and>
   port_loop (rev homebrew_keywords) [com1, com3, com7] = Some ''COM3''"
proof -
  have c: "list_all2 same_but_case [com1, com3, com7] [com1, com3_upper, com7]"
    by (simp add: com3_case) (simp add: same_but_case_def)
  have k: "set (rev homebrew_keywords) = set homebrew_keywords" by simp
  note dfm = detect_first_match [of "[com1, com3, com7]"]
  from dfm have a: "detect_homebrew_port (Some [com1, com3, com7]) = Inr (Some (device com3))"
    by (simp add: com1_no com3_yes)
  from dfm c have b: "detect_homebrew_port (Some [com1, com3_upper, com7]) =
      detect_homebrew_port (Some [com1, com3, com7])"
    by blast
  from dfm k have "port_loop (rev homebrew_keywords) [com1, com3, com7] =
      port_loop homebrew_keywords [com1, com3, com7]"
    by blast
  moreover from a have "port_loop homebrew_keywords [com1, com3, com7] = Some (device com3)"
    by (simp add: detect_homebrew_port_def)
  ultimately have d: "port_loop (rev homebrew_keywords) [com1, com3, com7] = Some (device com3)"
    by simp
  have dev: "device com3 = ''COM3''" by (simp add: com3_def)
  from a b d show ?thesis by (simp add: dev)
qed

text \<open>
  Claim C8. On the empty sequence of port descriptors \<^verbatim>\<open>detect_homebrew_port\<close> returns
  \<^verbatim>\<open>None\<close> and raises nothing; \<^verbatim>\<open>list_com_ports\<close> answers an empty enumeration with
  \<^verbatim>\<open>None\<close>, not with an exception.
\<close>

theorem detect_empty:
  "detect_homebrew_port (Some []) = Inr None \<and> list_com_ports [] = None"
  by (simp add: detect_homebrew_port_def list_com_ports_def)

section \<open>Properties of the command battery\<close>

lemma send_command_open:
  "tn self = Some u \<Longrightarrow>
   send_command L c d (self, w) =
     (case encode L (c @ CRLF) of
        Inl e \<Rightarrow> (Inr (''Error: '' @ str e), (self, w))
      | Inr payload \<Rightarrow>
          (case sock_send L payload w of
             (Inl e, w1) \<Rightarrow> (Inr (''Error: '' @ str e), (self, w1))
           | (Inr n, w1) \<Rightarrow>
               (case sock_recv L 1024 (sleep L d w1) of
                  (Inl e, w2) \<Rightarrow> (Inr (''Error: '' @ str e), (self, w2))
                | (Inr data, w2) \<Rightarrow>
                    (case decode L data of
                       Inl e \<Rightarrow> (Inr (''Error: '' @ str e), (self, w2))
                     | Inr text \<Rightarrow> (Inr (strip text), (self, w2))))))"
  by (simp add: send_command_def send_command_try_def io_try_def io_bind_def io_get_def
      io_of_def in_world_def world_do_def io_return_def
      split: sum.split prod.split)

lemma send_command_unconnected:
  "tn self = None \<Longrightarrow>
   send_command L c d (self, w) =
     (Inr (''Error: '' @ '''NoneType' object has no attribute 'send'' @ [CHR 0x27]), (self, w))"
  by (simp add: send_command_def send_command_try_def io_try_def io_bind_def io_get_def
      io_raise_def io_return_def)

lemma send_command_returns:
  "\<exists>r w'. send_command L c d (self, w) = (Inr r, (self, w'))"
proof (cases "tn self")
  case None
  then show ?thesis by (simp add: send_command_unconnected)
next
  case (Some u)
  then show ?thesis
    by (simp add: send_command_open split: sum.split prod.split)
qed

lemma test_wifi_module_names:
  "\<exists>tests w'. test_wifi_module L (self, w) = (Inr tests, (self, w')) \<and> map fst tests = wifi_names"
proof -
  obtain r1 w1 where 1: "send_command L ''WIFISTATUS'' default_delay (self, w) = (Inr r1, (self, w1))"
    using send_command_returns [of L "''WIFISTATUS''" default_delay self "w"] by blast
  obtain r2 w2 where 2: "send_command L ''WIFISCAN'' default_delay (self, w1) = (Inr r2, (self, w2))"
    using send_command_returns [of L "''WIFISCAN''" default_delay self "w1"] by blast
  obtain r3 w3 where 3: "send_command L ''WIFICONNECT'' default_delay (self, w2) = (Inr r3, (self, w3))"
    using send_command_returns [of L "''WIFICONNECT''" default_delay self "w2"] by blast
  obtain r4 w4 where 4: "send_command L ''PING 8.8.8.8'' default_delay (self, w3) = (Inr r4, (self, w4))"
    using send_command_returns [of L "''PING 8.8.8.8''" default_delay self "w3"] by blast
  obtain r5 w5 where 5: "send_command L ''PING 192.168.1.1'' default_delay (self, w4) = (Inr r5, (self, w5))"
    using send_command_returns [of L "''PING 192.168.1.1''" default_delay self "w4"] by blast
  show ?thesis
    by (simp add: test_wifi_module_def io_bind_def io_return_def 1 2 3 4 5 wifi_names_def)
qed

lemma test_bluetooth_module_names:
  "\<exists>tests w'. test_bluetooth_module L (self, w) = (Inr tests, (self, w')) \<and>
     map fst tests = bluetooth_names"
proof -
  obtain r1 w1 where 1: "send_command L ''BTSTATUS'' default_delay (self, w) = (Inr r1, (self, w1))"
    using send_command_returns [of L "''BTSTATUS''" default_delay self "w"] by blast
  obtain r2 w2 where 2: "send_command L ''BTSCAN'' default_delay (self, w1) = (Inr r2, (self, w2))"
    using send_command_returns [of L "''BTSCAN''" default_delay self "w1"] by blast
  obtain r3 w3 where 3: "send_command L ''BTPAIR'' default_delay (self, w2) = (Inr r3, (self, w3))"
    using send_command_returns [of L "''BTPAIR''" default_delay self "w2"] by blast
  show ?thesis
    by (simp add: test_bluetooth_module_def io_bind_def io_return_def 1 2 3 bluetooth_names_def)
qed

lemma test_gps_module_names:
  "\<exists>tests w'. test_gps_module L (self, w) = (Inr tests, (self, w')) \<and> map fst tests = gps_names"
proof -
  obtain r1 w1 where 1: "send_command L ''GPSSTATUS'' default_delay (self, w) = (Inr r1, (self, w1))"
    using send_command_returns [of L "''GPSSTATUS''" default_delay self "w"] by blast
  obtain r2 w2 where 2: "send_command L ''GPSCOORDS'' default_delay (self, w1) = (Inr r2, (self, w2))"
    using send_command_returns [of L "''GPSCOORDS''" default_delay self "w1"] by blast
  obtain r3 w3 where 3: "send_command L ''GPSSAT'' default_delay (self, w2) = (Inr r3, (self, w3))"
    using send_command_returns [of L "''GPSSAT''" default_delay self "w2"] by blast
  obtain r4 w4 where 4: "send_command L ''GPSTIME'' default_delay (self, w3) = (Inr r4, (self, w4))"
    using send_command_returns [of L "''GPSTIME''" default_delay self "w3"] by blast
  show ?thesis
    by (simp add: test_gps_module_def io_bind_def io_return_def 1 2 3 4 gps_names_def)
qed

lemma test_usb_relay_names:
  "\<exists>tests w'. test_usb_relay L (self, w) = (Inr tests, (self, w')) \<and> map fst tests = usb_names"
proof -
  obtain r1 w1 where 1: "send_command L ''USBSTATUS'' default_delay (self, w) = (Inr r1, (self, w1))"
    using send_command_returns [of L "''USBSTATUS''" default_delay self "w"] by blast
  obtain r2 w2 where 2: "send_command L ''USBRELAY ON'' default_delay (self, w1) = (Inr r2, (self, w2))"
    using send_command_returns [of L "''USBRELAY ON''" default_delay self "w1"] by blast
  obtain r3 w3 where 3:
    "send_command L ''USBRELAY OFF'' default_delay (self, sleep L 1000 w2) = (Inr r3, (self, w3))"
    using send_command_returns [of L "''USBRELAY OFF''" default_delay self "sleep L 1000 w2"] by blast
  show ?thesis
    by (simp add: test_usb_relay_def io_bind_def io_return_def world_do_def 1 2 3 usb_names_def)
qed

lemma test_device_info_names:
  "\<exists>tests w'. test_device_info L (self, w) = (Inr tests, (self, w')) \<and> map fst tests = device_names"
proof -
  obtain r1 w1 where 1: "send_command L ''VERSION'' default_delay (self, w) = (Inr r1, (self, w1))"
    using send_command_returns [of L "''VERSION''" default_delay self "w"] by blast
  obtain r2 w2 where 2: "send_command L ''UPTIME'' default_delay (self, w1) = (Inr r2, (self, w2))"
    using send_command_returns [of L "''UPTIME''" default_delay self "w1"] by blast
  obtain r3 w3 where 3: "send_command L ''TEMPERATURE'' default_delay (self, w2) = (Inr r3, (self, w3))"
    using send_command_returns [of L "''TEMPERATURE''" default_delay self "w2"] by blast
  obtain r4 w4 where 4: "send_command L ''MEMORY'' default_delay (self, w3) = (Inr r4, (self, w4))"
    using send_command_returns [of L "''MEMORY''" default_delay self "w3"] by blast
  show ?thesis
    by (simp add: test_device_info_def io_bind_def io_return_def 1 2 3 4 device_names_def)
qed

lemma connect_telnet_open:
  "connect_telnet L (self, w) =
     (case socket_socket L w of
        (Inl e, w1) \<Rightarrow> (Inr False, (self, w1))
      | (Inr u, w1) \<Rightarrow>
          (case sock_connect L (host self) (port self) w1 of
             (Inl e, w2) \<Rightarrow> (Inr False, (self\<lparr>tn := Some ()\<rparr>, w2))
           | (Inr u', w2) \<Rightarrow> (Inr True, (self\<lparr>tn := Some ()\<rparr>, w2))))"
  by (simp add: connect_telnet_def io_try_def io_bind_def io_get_def io_modify_def
      in_world_def io_return_def split: sum.split prod.split)

lemma connect_telnet_returns:
  "\<exists>b self' w'. connect_telnet L (self, w) = (Inr b, (self', w')) \<and>
     test_results self' = test_results self \<and> (b \<longrightarrow> tn self' = Some ())"
  by (auto simp: connect_telnet_open split: sum.split prod.split)

lemma run_all_tests_unconnected:
  "connect_telnet L (self, w) = (Inr False, s1) \<Longrightarrow> run_all_tests L (self, w) = (Inr None, s1)"
  by (simp add: run_all_tests_def io_bind_def io_return_def)

lemma run_all_tests_connected:
  assumes c: "connect_telnet L (self, w) = (Inr True, (self1, w1))"
  shows "\<exists>wifi bluetooth gps usb dev start_time end_time self' w'.
     map fst wifi = wifi_names \<and> map fst bluetooth = bluetooth_names \<and>
     map fst gps = gps_names \<and> map fst usb = usb_names \<and> map fst dev = device_names \<and>
     run_all_tests L (self, w) = (Inr (Some (test_results self')), (self', w')) \<and>
     (\<exists>selfd wd wd'. tn selfd = tn self1 \<and>
        test_device_info L (selfd, wd) = (Inr dev, (selfd, wd'))) \<and>
     test_results self' =
       AList.update ''test_timestamp'' (Text (isoformat L start_time))
         (AList.update ''test_duration'' (Text (str_timedelta L end_time start_time))
           (AList.update ''device_tests'' (Tests dev)
             (AList.update ''usb_tests'' (Tests usb)
               (AList.update ''gps_tests'' (Tests gps)
                 (AList.update ''bluetooth_tests'' (Tests bluetooth)
                   (AList.update ''wifi_tests'' (Tests wifi) (test_results self1)))))))"
proof -
  obtain start_time wa where n1: "datetime_now L w1 = (start_time, wa)"
    by (cases "datetime_now L w1")
  obtain wifi wb where t1: "test_wifi_module L (self1, wa) = (Inr wifi, (self1, wb))"
    and k1: "map fst wifi = wifi_names"
    using test_wifi_module_names [of L self1 wa] by blast
  define self2 where "self2 = self1\<lparr>test_results := AList.update ''wifi_tests'' (Tests wifi) (test_results self1)\<rparr>"
  obtain bluetooth wc where t2: "test_bluetooth_module L (self2, wb) = (Inr bluetooth, (self2, wc))"
    and k2: "map fst bluetooth = bluetooth_names"
    using test_bluetooth_module_names [of L self2 wb] by blast
  define self3 where "self3 = self2\<lparr>test_results := AList.update ''bluetooth_tests'' (Tests bluetooth) (test_results self2)\<rparr>"
  obtain gps wd where t3: "test_gps_module L (self3, wc) = (Inr gps, (self3, wd))"
    and k3: "map fst gps = gps_names"
    using test_gps_module_names [of L self3 wc] by blast
  define self4 where "self4 = self3\<lparr>test_results := AList.update ''gps_tests'' (Tests gps) (test_results self3)\<rparr>"
  obtain usb we where t4: "test_usb_relay L (self4, wd) = (Inr usb, (self4, we))"
    and k4: "map fst usb = usb_names"
    using test_usb_relay_names [of L self4 wd] by blast
  define self5 where "self5 = self4\<lparr>test_results := AList.update ''usb_tests'' (Tests usb) (test_results self4)\<rparr>"
  obtain dev wf where t5: "test_device_info L (self5, we) = (Inr dev, (self5, wf))"
    and k5: "map fst dev = device_names"
    using test_device_info_names [of L self5 we] by blast
  define self6 where "self6 = self5\<lparr>test_results := AList.update ''device_tests'' (Tests dev) (test_results self5)\<rparr>"
  obtain end_time wg where n2: "datetime_now L wf = (end_time, wg)"
    by (cases "datetime_now L wf")
  define self7 where "self7 = self6\<lparr>test_results :=
      AList.update ''test_duration'' (Text (str_timedelta L end_time start_time)) (test_results self6)\<rparr>"
  define self8 where "self8 = self7\<lparr>test_results :=
      AList.update ''test_timestamp'' (Text (isoformat L start_time)) (test_results self7)\<rparr>"
  have run: "run_all_tests L (self, w) = (Inr (Some (test_results self8)), (self8, sock_close L wg))"
    unfolding run_all_tests_def
    by (simp add: io_bind_def c n1 t1 world_get_def set_result_def io_modify_def
        self2_def [symmetric] t2 self3_def [symmetric] t3 self4_def [symmetric] t4
        self5_def [symmetric] t5 self6_def [symmetric] n2 self7_def [symmetric]
        self8_def [symmetric] world_do_def io_get_def io_return_def)
  have res: "test_results self8 =
       AList.update ''test_timestamp'' (Text (isoformat L start_time))
         (AList.update ''test_duration'' (Text (str_timedelta L end_time start_time))
           (AList.update ''device_tests'' (Tests dev)
             (AList.update ''usb_tests'' (Tests usb)
               (AList.update ''gps_tests'' (Tests gps)
                 (AList.update ''bluetooth_tests'' (Tests bluetooth)
                   (AList.update ''wifi_tests'' (Tests wifi) (test_results self1)))))))"
    by (simp add: self8_def self7_def self6_def self5_def self4_def self3_def self2_def)
  have "tn self5 = tn self1"
    by (simp add: self5_def self4_def self3_def self2_def)
  with t5 have d: "\<exists>selfd wd wd'. tn selfd = tn self1 \<and>
        test_device_info L (selfd, wd) = (Inr dev, (selfd, wd'))"
    by blast
  from k1 k2 k3 k4 k5 run res d show ?thesis by blast
qed

lemma update_names:
  "map_of (AList.update k v al) k = Some v"
  "k' \<noteq> k \<Longrightarrow> map_of (AList.update k v al) k' = map_of al k'"
  by (simp_all add: AList.update_conv')

lemma test_device_info_replies:
  assumes 1: "\<forall>w. fst (send_command L ''VERSION'' default_delay (self, w)) = Inr r1"
    and 2: "\<forall>w. fst (send_command L ''UPTIME'' default_delay (self, w)) = Inr r2"
    and 3: "\<forall>w. fst (send_command L ''TEMPERATURE'' default_delay (self, w)) = Inr r3"
    and 4: "\<forall>w. fst (send_command L ''MEMORY'' default_delay (self, w)) = Inr r4"
  shows "fst (test_device_info L (self, w)) =
     Inr [(''device_version'', r1), (''device_uptime'', r2),
          (''device_temperature'', r3), (''memory_status'', r4)]"
proof -
  obtain v1 w1 where a: "send_command L ''VERSION'' default_delay (self, w) = (Inr v1, (self, w1))"
    using send_command_returns [of L "''VERSION''" default_delay self w] by blast
  obtain v2 w2 where b: "send_command L ''UPTIME'' default_delay (self, w1) = (Inr v2, (self, w2))"
    using send_command_returns [of L "''UPTIME''" default_delay self w1] by blast
  obtain v3 w3 where c: "send_command L ''TEMPERATURE'' default_delay (self, w2) = (Inr v3, (self, w3))"
    using send_command_returns [of L "''TEMPERATURE''" default_delay self w2] by blast
  obtain v4 w4 where d: "send_command L ''MEMORY'' default_delay (self, w3) = (Inr v4, (self, w4))"
    using send_command_returns [of L "''MEMORY''" default_delay self w3] by blast
  from 1 a have "v1 = r1" by (metis fst_conv sum.inject(2))
  moreover from 2 b have "v2 = r2" by (metis fst_conv sum.inject(2))
  moreover from 3 c have "v3 = r3" by (metis fst_conv sum.inject(2))
  moreover from 4 d have "v4 = r4" by (metis fst_conv sum.inject(2))
  ultimately show ?thesis
    by (simp add: test_device_info_def io_bind_def io_return_def a b c d)
qed

lemma sim_send_command:
  "tn self = Some u \<Longrightarrow>
   fst (send_command (sim_wifi_lib dev) c d (self, w)) =
     (case dev (c @ CRLF) of
        Silent \<Rightarrow> Inr ''Error: timed out''
      | Reply t data \<Rightarrow>
          if t \<le> d + 5000 then Inr (strip (take 1024 data)) else Inr ''Error: timed out'')"
  by (simp add: send_command_open sim_wifi_lib_def sim_send_def sim_recv_def sim_sleep_def
      split: traffic.split)

lemma strip_version: "strip (''v1.2.3'' @ [CHR 0x0D, CHR 0x0A]) = ''v1.2.3''"
  by code_simp

lemma strip_nothing: "strip [] = []"
  by (simp add: strip_def)

lemma version_device_version:
  "tn self \<noteq> None \<Longrightarrow>
   fst (send_command (sim_wifi_lib version_device) ''VERSION'' default_delay (self, w)) = Inr ''v1.2.3''"
  by (auto simp: sim_send_command version_device_def default_delay_def CRLF_def
      strip_version [simplified])

lemma version_device_other:
  "c \<in> {''UPTIME'', ''TEMPERATURE'', ''MEMORY''} \<Longrightarrow> tn self \<noteq> None \<Longrightarrow>
   fst (send_command (sim_wifi_lib version_device) c default_delay (self, w)) = Inr ''''"
  by (auto simp: sim_send_command version_device_def default_delay_def strip_nothing)

lemma sim_connect:
  "fst (connect_telnet (sim_wifi_lib dev) (self, w)) = Inr True"
  by (simp add: connect_telnet_open sim_wifi_lib_def io_return_def)

lemma broken_connect:
  "fst (connect_telnet broken_wifi_lib (self, w)) = Inr True"
  by (simp add: connect_telnet_open broken_wifi_lib_def sim_wifi_lib_def io_return_def)

text \<open>
  Claim C6. Whatever the library does (every command may fail), once \<^verbatim>\<open>connect_telnet\<close> has
  succeeded \<^verbatim>\<open>run_all_tests\<close> returns a result and raises nothing: the result holds the
  mappings of all five test categories, each with all the names of its battery, and the
  texts \<^verbatim>\<open>test_duration\<close> and \<^verbatim>\<open>test_timestamp\<close>; on a fresh tester these seven are its keys,
  in this order.
\<close>

theorem run_all_tests_complete:
  assumes "fst (connect_telnet L (self, w)) = Inr True"
  shows "\<exists>r s' wifi bluetooth gps usb dev duration timestamp.
     run_all_tests L (self, w) = (Inr (Some r), s') \<and>
     map_of r ''wifi_tests'' = Some (Tests wifi) \<and> map fst wifi = wifi_names \<and>
     map_of r ''bluetooth_tests'' = Some (Tests bluetooth) \<and> map fst bluetooth = bluetooth_names \<and>
     map_of r ''gps_tests'' = Some (Tests gps) \<and> map fst gps = gps_names \<and>
     map_of r ''usb_tests'' = Some (Tests usb) \<and> map fst usb = usb_names \<and>
     map_of r ''device_tests'' = Some (Tests dev) \<and> map fst dev = device_names \<and>
     map_of r ''test_duration'' = Some (Text duration) \<and>
     map_of r ''test_timestamp'' = Some (Text timestamp) \<and>
     (test_results self = [] \<longrightarrow>
        map fst r = [''wifi_tests'', ''bluetooth_tests'', ''gps_tests'', ''usb_tests'',
                     ''device_tests'', ''test_duration'', ''test_timestamp''])"
proof -
  obtain b self1 w1 where c: "connect_telnet L (self, w) = (Inr b, (self1, w1))"
    and tr: "test_results self1 = test_results self"
    using connect_telnet_returns [of L self w] by blast
  with assms have c': "connect_telnet L (self, w) = (Inr True, (self1, w1))" by simp
  from run_all_tests_connected [OF c']
  obtain wifi bluetooth gps usb dev start_time end_time self' w' where
    k: "map fst wifi = wifi_names" "map fst bluetooth = bluetooth_names"
       "map fst gps = gps_names" "map fst usb = usb_names" "map fst dev = device_names" and
    run: "run_all_tests L (self, w) = (Inr (Some (test_results self')), (self', w'))" and
    res: "test_results self' =
       AList.update ''test_timestamp'' (Text (isoformat L start_time))
         (AList.update ''test_duration'' (Text (str_timedelta L end_time start_time))
           (AList.update ''device_tests'' (Tests dev)
             (AList.update ''usb_tests'' (Tests usb)
               (AList.update ''gps_tests'' (Tests gps)
                 (AList.update ''bluetooth_tests'' (Tests bluetooth)
                   (AList.update ''wifi_tests'' (Tests wifi) (test_results self1)))))))"
    by blast
  have m1: "map_of (test_results self') ''wifi_tests'' = Some (Tests wifi)"
    by (simp add: res update_names)
  have m2: "map_of (test_results self') ''bluetooth_tests'' = Some (Tests bluetooth)"
    by (simp add: res update_names)
  have m3: "map_of (test_results self') ''gps_tests'' = Some (Tests gps)"
    by (simp add: res update_names)
  have m4: "map_of (test_results self') ''usb_tests'' = Some (Tests usb)"
    by (simp add: res update_names)
  have m5: "map_of (test_results self') ''device_tests'' = Some (Tests dev)"
    by (simp add: res update_names)
  have m6: "map_of (test_results self') ''test_duration'' = Some (Text (str_timedelta L end_time start_time))"
    by (simp add: res update_names)
  have m7: "map_of (test_results self') ''test_timestamp'' = Some (Text (isoformat L start_time))"
    by (simp add: res update_names)
  have fresh: "test_results self = [] \<longrightarrow>
        map fst (test_results self') = [''wifi_tests'', ''bluetooth_tests'', ''gps_tests'', ''usb_tests'',
                     ''device_tests'', ''test_duration'', ''test_timestamp'']"
    by (simp add: res tr)
  from run m1 m2 m3 m4 m5 m6 m7 k fresh show ?thesis
    by (intro exI conjI) assumption+
qed

theorem run_all_tests_complete_witness:
  "fst (connect_telnet broken_wifi_lib (init_tester ''192.168.68.5'' 2000, line0)) = Inr True \<and>
   (\<exists>r s'. run_all_tests broken_wifi_lib (init_tester ''192.168.68.5'' 2000, line0)
              = (Inr (Some r), s') \<and>
      map fst r = [''wifi_tests'', ''bluetooth_tests'', ''gps_tests'', ''usb_tests'',
                   ''device_tests'', ''test_duration'', ''test_timestamp''])"
proof -
  have c: "fst (connect_telnet broken_wifi_lib (init_tester ''192.168.68.5'' 2000, line0)) = Inr True"
    by (rule broken_connect)
  have f: "test_results (init_tester ''192.168.68.5'' 2000) = []"
    by (simp add: init_tester_def)
  from run_all_tests_complete [OF c] obtain r s' where
    run: "run_all_tests broken_wifi_lib (init_tester ''192.168.68.5'' 2000, line0) = (Inr (Some r), s')"
    and imp: "test_results (init_tester ''192.168.68.5'' 2000) = [] \<longrightarrow>
        map fst r = [''wifi_tests'', ''bluetooth_tests'', ''gps_tests'', ''usb_tests'',
                     ''device_tests'', ''test_duration'', ''test_timestamp'']"
    by (elim exE conjE)
  from imp f have "map fst r = [''wifi_tests'', ''bluetooth_tests'', ''gps_tests'', ''usb_tests'',
                     ''device_tests'', ''test_duration'', ''test_timestamp'']"
    by (rule mp)
  with c run show ?thesis by (intro conjI exI) assumption+
qed

text \<open>
  Claim C2. When the session answers \<^verbatim>\<open>v1.2.3\<close> to \<^verbatim>\<open>VERSION\<close> and the empty text to
  \<^verbatim>\<open>UPTIME\<close>, \<^verbatim>\<open>TEMPERATURE\<close> and \<^verbatim>\<open>MEMORY\<close>, the mapping of \<^verbatim>\<open>test_device_info\<close>, and with
  it the entry \<^verbatim>\<open>device_tests\<close> of \<^verbatim>\<open>run_all_tests\<close>, is
  \<^verbatim>\<open>{device_version: v1.2.3, device_uptime: "", device_temperature: "", memory_status: ""}\<close>.
\<close>

theorem device_info_scenario:
  assumes v: "\<forall>self w. tn self \<noteq> None \<longrightarrow>
      fst (send_command L ''VERSION'' default_delay (self, w)) = Inr ''v1.2.3''"
    and e: "\<forall>c \<in> {''UPTIME'', ''TEMPERATURE'', ''MEMORY''}. \<forall>self w. tn self \<noteq> None \<longrightarrow>
      fst (send_command L c default_delay (self, w)) = Inr ''''"
  shows "(tn self \<noteq> None \<longrightarrow>
      fst (test_device_info L (self, w)) =
        Inr [(''device_version'', ''v1.2.3''), (''device_uptime'', ''''),
             (''device_temperature'', ''''), (''memory_status'', '''')]) \<and>
     (fst (connect_telnet L (self, w)) = Inr True \<longrightarrow>
      (\<exists>r s'. run_all_tests L (self, w) = (Inr (Some r), s') \<and>
         map_of r ''device_tests'' =
           Some (Tests [(''device_version'', ''v1.2.3''), (''device_uptime'', ''''),
                        (''device_temperature'', ''''), (''memory_status'', '''')])))"
proof (intro conjI impI)
  have batt: "fst (test_device_info L (selfd, wd)) =
        Inr [(''device_version'', ''v1.2.3''), (''device_uptime'', ''''),
             (''device_temperature'', ''''), (''memory_status'', '''')]"
    if "tn selfd \<noteq> None" for selfd wd
  proof (rule test_device_info_replies)
    show "\<forall>w. fst (send_command L ''VERSION'' default_delay (selfd, w)) = Inr ''v1.2.3''"
      using v that by blast
    show "\<forall>w. fst (send_command L ''UPTIME'' default_delay (selfd, w)) = Inr ''''"
      using e that by blast
    show "\<forall>w. fst (send_command L ''TEMPERATURE'' default_delay (selfd, w)) = Inr ''''"
      using e that by blast
    show "\<forall>w. fst (send_command L ''MEMORY'' default_delay (selfd, w)) = Inr ''''"
      using e that by blast
  qed
  show "fst (test_device_info L (self, w)) =
        Inr [(''device_version'', ''v1.2.3''), (''device_uptime'', ''''),
             (''device_temperature'', ''''), (''memory_status'', '''')]"
    if "tn self \<noteq> None"
    using that by (rule batt)
  assume "fst (connect_telnet L (self, w)) = Inr True"
  moreover obtain b self1 w1 where c: "connect_telnet L (self, w) = (Inr b, (self1, w1))"
    and op: "b \<longrightarrow> tn self1 = Some ()"
    using connect_telnet_returns [of L self w] by blast
  ultimately have c': "connect_telnet L (self, w) = (Inr True, (self1, w1))"
    and tn1: "tn self1 = Some ()" by simp_all
  from run_all_tests_connected [OF c']
  obtain wifi bluetooth gps usb dev start_time end_time self' w' where
    run: "run_all_tests L (self, w) = (Inr (Some (test_results self')), (self', w'))" and
    d: "\<exists>selfd wd wd'. tn selfd = tn self1 \<and>
        test_device_info L (selfd, wd) = (Inr dev, (selfd, wd'))" and
    res: "test_results self' =
       AList.update ''test_timestamp'' (Text (isoformat L start_time))
         (AList.update ''test_duration'' (Text (str_timedelta L end_time start_time))
           (AList.update ''device_tests'' (Tests dev)
             (AList.update ''usb_tests'' (Tests usb)
               (AList.update ''gps_tests'' (Tests gps)
                 (AList.update ''bluetooth_tests'' (Tests bluetooth)
                   (AList.update ''wifi_tests'' (Tests wifi) (test_results self1)))))))"
    by blast
  from d obtain selfd wd wd' where "tn selfd = tn self1"
    and td: "test_device_info L (selfd, wd) = (Inr dev, (selfd, wd'))" by blast
  with tn1 have "tn selfd \<noteq> None" by simp
  from batt [OF this, of wd] td have dev: "dev = [(''device_version'', ''v1.2.3''), (''device_uptime'', ''''),
             (''device_temperature'', ''''), (''memory_status'', '''')]" by simp
  have "map_of (test_results self') ''device_tests'' = Some (Tests dev)"
    by (simp add: res update_names)
  with run dev show "\<exists>r s'. run_all_tests L (self, w) = (Inr (Some r), s') \<and>
         map_of r ''device_tests'' =
           Some (Tests [(''device_version'', ''v1.2.3''), (''device_uptime'', ''''),
                        (''device_temperature'', ''''), (''memory_status'', '''')])"
    by blast
qed

theorem device_info_scenario_witness:
  "fst (test_device_info (sim_wifi_lib version_device) (open_tester, line0)) =
     Inr [(''device_version'', ''v1.2.3''), (''device_uptime'', ''''),
          (''device_temperature'', ''''), (''memory_status'', '''')] \<and>
   (\<exists>r s'. run_all_tests (sim_wifi_lib version_device) (init_tester ''192.168.68.5'' 2000, line0)
              = (Inr (Some r), s') \<and>
      map_of r ''device_tests'' =
        Some (Tests [(''device_version'', ''v1.2.3''), (''device_uptime'', ''''),
                     (''device_temperature'', ''''), (''memory_status'', '''')]))"
proof -
  let ?L = "sim_wifi_lib version_device"
  have v: "\<forall>self w. tn self \<noteq> None \<longrightarrow>
      fst (send_command ?L ''VERSION'' default_delay (self, w)) = Inr ''v1.2.3''"
    using version_device_version by blast
  have e: "\<forall>c \<in> {''UPTIME'', ''TEMPERATURE'', ''MEMORY''}. \<forall>self w. tn self \<noteq> None \<longrightarrow>
      fst (send_command ?L c default_delay (self, w)) = Inr ''''"
    using version_device_other by blast
  have o: "tn open_tester \<noteq> None" by (simp add: open_tester_def init_tester_def)
  have c: "fst (connect_telnet ?L (init_tester ''192.168.68.5'' 2000, line0)) = Inr True"
    by (rule sim_connect)
  from device_info_scenario [OF v e, of open_tester line0] o
  have a: "fst (test_device_info ?L (open_tester, line0)) =
     Inr [(''device_version'', ''v1.2.3''), (''device_uptime'', ''''),
          (''device_temperature'', ''''), (''memory_status'', '''')]"
    by blast
  from device_info_scenario [OF v e, of "init_tester ''192.168.68.5'' 2000" line0] c
  have b: "\<exists>r s'. run_all_tests ?L (init_tester ''192.168.68.5'' 2000, line0) = (Inr (Some r), s') \<and>
      map_of r ''device_tests'' =
        Some (Tests [(''device_version'', ''v1.2.3''), (''device_uptime'', ''''),
                     (''device_temperature'', ''''), (''memory_status'', '''')])"
    by blast
  from a b show ?thesis by (rule conjI)
qed

section \<open>Properties of the mount session and of the responses to a silent or broken line\<close>




















end
